theory Spec2Isabelle
  imports Complex_Main "HOL-Library.Word"
begin

section \<open>Runtime values\<close>

text \<open>
  The components are TypeScript, but the values that reach them at run time come from
  \<^verbatim>\<open>JSON.parse\<close> and are not checked against the declared types. A parsed value is
  a \<open>json\<close>; a property read can also give \<^verbatim>\<open>undefined\<close>, which is \<open>None\<close> of
  \<open>json option\<close>.
\<close>

datatype json =
    JNull
  | JBool bool
  | JNum rat
  | JStr string
  | JArr "json list"
  | JObj "(string \<times> json) list"

datatype js_error = TypeError | SyntaxError

text \<open>JavaScript truthiness, as tested by \<^verbatim>\<open>if (x)\<close> and \<^verbatim>\<open>!x\<close>.\<close>

fun truthy :: "json option \<Rightarrow> bool" where
  "truthy None = False"
| "truthy (Some JNull) = False"
| "truthy (Some (JBool b)) = b"
| "truthy (Some (JNum n)) = (n \<noteq> 0)"
| "truthy (Some (JStr s)) = (s \<noteq> [])"
| "truthy (Some (JArr _)) = True"
| "truthy (Some (JObj _)) = True"

text \<open>
  \<^verbatim>\<open>data.key\<close> for the keys \<^verbatim>\<open>state\<close> and \<^verbatim>\<open>token\<close>: reading a property of
  \<^verbatim>\<open>null\<close> throws a TypeError; an object gives the property or \<^verbatim>\<open>undefined\<close>; a
  boolean, number, string or array has no such property. The pairs of \<open>JObj\<close> are the
  properties of the parsed object.
\<close>

fun get_property :: "json \<Rightarrow> string \<Rightarrow> js_error + json option" where
  "get_property JNull k = Inl TypeError"
| "get_property (JObj kvs) k = Inr (map_of kvs k)"
| "get_property _ k = Inr None"

section \<open>useAudioAnalyzer\<close>

type_synonym byte = "8 word"

text \<open>
  A JavaScript number that may be \<^verbatim>\<open>NaN\<close>: \<open>None\<close> is \<^verbatim>\<open>NaN\<close>. Finite values are
  taken as real numbers.
\<close>

type_synonym number = "real option"

text \<open>\<^verbatim>\<open>const v = (time[i] - 128) / 128\<close>\<close>

definition sample_v :: "byte \<Rightarrow> real" where
  "sample_v b = (real (unat b) - 128) / 128"

text \<open>The \<^verbatim>\<open>for\<close> loop accumulating \<^verbatim>\<open>sum += v * v\<close>, from the current value \<open>s\<close> of \<^verbatim>\<open>sum\<close>.\<close>

fun sum_loop :: "byte list \<Rightarrow> real \<Rightarrow> real" where
  "sum_loop [] s = s"
| "sum_loop (b # bs) s = sum_loop bs (s + sample_v b * sample_v b)"

text \<open>
  \<^verbatim>\<open>rms = Math.sqrt(sum / time.length); level = Math.min(1, rms * 2.2)\<close>.
  For an empty buffer the quotient is \<^verbatim>\<open>0 / 0\<close>, which is \<^verbatim>\<open>NaN\<close>, and stays so.
\<close>

definition compute_level :: "byte list \<Rightarrow> number" where
  "compute_level samples =
     (if length samples = 0 then None
      else let rms = sqrt (sum_loop samples 0 / real (length samples))
           in Some (min 1 (rms * 2.2)))"





text \<open>
  The host page. \<open>NoWindow\<close>: \<^verbatim>\<open>typeof window === 'undefined'\<close>. \<open>Window None\<close>: the
  window has no \<^verbatim>\<open>matchMedia\<close>. \<open>Window (Some m)\<close>: \<open>m\<close> is
  \<^verbatim>\<open>window.matchMedia('(prefers-reduced-motion: reduce)').matches\<close>.
\<close>

datatype host = NoWindow | Window "bool option"

text \<open>The host signals a reduced-motion preference: the media query matches.\<close>

fun prefers_reduced_motion :: "host \<Rightarrow> bool" where
  "prefers_reduced_motion (Window (Some m)) = m"
| "prefers_reduced_motion _ = False"

text \<open>The callback of \<^verbatim>\<open>useMemo(..., [])\<close>: evaluated once, when the hook mounts.\<close>

fun supportsMotion :: "host \<Rightarrow> bool" where
  "supportsMotion NoWindow = True"
| "supportsMotion (Window None) = True"
| "supportsMotion (Window (Some m)) = (\<not> m)"

text \<open>A \<^verbatim>\<open>MediaStreamTrack\<close>, by its id.\<close>

type_synonym track = string

record AnalyzerData =
  freq :: "byte list"
  time :: "byte list"
  level :: number

record analyser_node =
  fftSize :: nat
  smoothingTimeConstant :: real

text \<open>
  The hook's state: the memoised \<^verbatim>\<open>supportsMotion\<close>, the \<^verbatim>\<open>data\<close> state, the four
  refs (\<open>rafRef\<close> holds whether a frame callback is pending), the options, and two
  counters of the audio contexts opened and closed so far.
\<close>

record analyzer_hook =
  supportsMotion_memo :: bool
  data :: "AnalyzerData option"
  audioCtxRef :: "nat option"
  analyserRef :: "analyser_node option"
  sourceRef :: "track option"
  rafRef :: bool
  options :: analyser_node
  contexts_opened :: nat
  contexts_closed :: nat

definition useAudioAnalyzer :: "host \<Rightarrow> analyser_node \<Rightarrow> analyzer_hook" where
  "useAudioAnalyzer h opts =
     \<lparr>supportsMotion_memo = supportsMotion h, data = None, audioCtxRef = None,
      analyserRef = None, sourceRef = None, rafRef = False, options = opts,
      contexts_opened = 0, contexts_closed = 0\<rparr>"

text \<open>
  The effect bound to the track: nothing without a track, nothing without motion support;
  otherwise a new \<^verbatim>\<open>AudioContext\<close>, analyser and source, and the first frame requested.
\<close>

definition attach_effect :: "track option \<Rightarrow> analyzer_hook \<Rightarrow> analyzer_hook" where
  "attach_effect mediaStreamTrack h =
     (case mediaStreamTrack of
        None \<Rightarrow> h
      | Some t \<Rightarrow>
          if \<not> supportsMotion_memo h then h
          else h\<lparr>audioCtxRef := Some (contexts_opened h),
                 contexts_opened := Suc (contexts_opened h),
                 analyserRef := Some (options h),
                 sourceRef := Some t,
                 rafRef := True\<rparr>)"

text \<open>The cleanups that run when the track changes or the hook unmounts.\<close>

definition cleanup :: "analyzer_hook \<Rightarrow> analyzer_hook" where
  "cleanup h =
     h\<lparr>rafRef := False, sourceRef := None, analyserRef := None, audioCtxRef := None,
       contexts_closed :=
         (case audioCtxRef h of None \<Rightarrow> contexts_closed h | Some _ \<Rightarrow> Suc (contexts_closed h))\<rparr>"

text \<open>
  One run of \<^verbatim>\<open>loop\<close>, with the bytes the analyser wrote into \<^verbatim>\<open>freq\<close> and
  \<^verbatim>\<open>time\<close>. It runs only when a frame callback is pending; without an analyser it
  returns and requests no further frame.
\<close>

definition loop :: "byte list \<Rightarrow> byte list \<Rightarrow> analyzer_hook \<Rightarrow> analyzer_hook" where
  "loop f t h =
     (if \<not> rafRef h then h
      else case analyserRef h of
             None \<Rightarrow> h\<lparr>rafRef := False\<rparr>
           | Some _ \<Rightarrow> h\<lparr>data := Some \<lparr>freq = f, time = t, level = compute_level t\<rparr>,
                          rafRef := True\<rparr>)"

datatype hook_event =
    TrackChanged "track option"
  | AnimationFrame "byte list" "byte list"
  | Unmounted

fun hook_step :: "analyzer_hook \<Rightarrow> hook_event \<Rightarrow> analyzer_hook" where
  "hook_step h (TrackChanged t) = attach_effect t (cleanup h)"
| "hook_step h (AnimationFrame f t) = loop f t h"
| "hook_step h Unmounted = cleanup h"

definition run_hook :: "analyzer_hook \<Rightarrow> hook_event list \<Rightarrow> analyzer_hook" where
  "run_hook h evs = foldl hook_step h evs"


text \<open>
  The page around the hook: the host as it is now, and the hook. The host's preference
  can change while the hook is mounted; the hook listens to no change of the media query
  and its memo has no dependency, so a change of the host leaves the hook as it is.
\<close>

datatype page_event = HostChanged host | HookEvent hook_event

fun page_step :: "host \<times> analyzer_hook \<Rightarrow> page_event \<Rightarrow> host \<times> analyzer_hook" where
  "page_step (hst, h) (HostChanged hst') = (hst', h)"
| "page_step (hst, h) (HookEvent e) = (hst, hook_step h e)"

definition mount_page :: "host \<Rightarrow> analyser_node \<Rightarrow> host \<times> analyzer_hook" where
  "mount_page hst opts = (hst, useAudioAnalyzer hst opts)"

definition run_page :: "host \<times> analyzer_hook \<Rightarrow> page_event list \<Rightarrow> host \<times> analyzer_hook" where
  "run_page p pevs = foldl page_step p pevs"

section \<open>RadialVisualizer\<close>

text \<open>
  \<^verbatim>\<open>colorMap[state]\<close>. The state is whatever value the parent holds; a key that is not
  a string is converted to one, so a one-element array looks up its element, and every
  other key but the four names gives nothing that can be destructured.
\<close>

fun colorMap :: "json \<Rightarrow> (string \<times> string) option" where
  "colorMap (JStr s) =
     map_of [(''idle'', (''rgba(255,255,255,0.15)'', ''rgba(255,255,255,0.05)'')),
             (''listening'', (''#34d399'', ''#22c55e'')),
             (''thinking'', (''#fbbf24'', ''#f59e0b'')),
             (''speaking'', (''#60a5fa'', ''#8b5cf6''))] s"
| "colorMap (JArr [x]) = colorMap x"
| "colorMap _ = None"

text \<open>
  \<^verbatim>\<open>amp\<close> at step \<open>i\<close> of 128: the remapped sample at
  \<^verbatim>\<open>Math.floor((i / steps) * data.time.length)\<close>, or 0 without samples. At the last step
  the index is the length: the read is \<^verbatim>\<open>undefined\<close> and the result \<^verbatim>\<open>NaN\<close>.
\<close>

definition amp :: "AnalyzerData option \<Rightarrow> nat \<Rightarrow> number" where
  "amp d i =
     (case d of
        None \<Rightarrow> Some 0
      | Some a \<Rightarrow>
          if length (time a) = 0 then Some 0
          else let k = (i * length (time a)) div 128
               in if k < length (time a) then Some (sample_v (time a ! k)) else None)"

text \<open>\<^verbatim>\<open>state === 'speaking' ? 8 : state === 'listening' ? 6 : 3\<close>\<close>

definition wobble_factor :: "json \<Rightarrow> real" where
  "wobble_factor state =
     (if state = JStr ''speaking'' then 8 else if state = JStr ''listening'' then 6 else 3)"

text \<open>\<^verbatim>\<open>const level = data?.level ?? 0.05\<close>\<close>

definition render_level :: "AnalyzerData option \<Rightarrow> number" where
  "render_level d = (case d of None \<Rightarrow> Some 0.05 | Some a \<Rightarrow> level a)"

record frame =
  colors :: "string \<times> string"
  ring_distances :: "number list list"
  glow_radius :: number
  core_radius :: number

text \<open>
  One run of \<^verbatim>\<open>render\<close> on a canvas of \<open>w\<close> by \<open>h\<close> pixels: the colours of the state
  (destructuring a missing entry throws), for each of the 4 rings the distance
  \<^verbatim>\<open>radius + wobble\<close> at each of the 129 steps, the radius of the outer glow and of
  the core.
\<close>

definition render :: "real \<Rightarrow> real \<Rightarrow> json \<Rightarrow> AnalyzerData option \<Rightarrow> js_error + frame" where
  "render w h state d =
     (let baseRadius = min w h * 0.32 in
      case colorMap state of
        None \<Rightarrow> Inl TypeError
      | Some c \<Rightarrow>
          Inr \<lparr>colors = c,
               ring_distances =
                 map (\<lambda>r. map (\<lambda>i. map_option (\<lambda>a. baseRadius + real r * 14 + a * wobble_factor state)
                                      (amp d i)) [0..<129]) [0..<4],
               glow_radius = map_option (\<lambda>l. baseRadius + 64 + l * 40) (render_level d),
               core_radius =
                 map_option (\<lambda>l. baseRadius * 0.38 + l * (if state = JStr ''speaking'' then 14 else 8))
                   (render_level d)\<rparr>)"

section \<open>VoiceInterface\<close>

text \<open>A participant: the object (by a number) and its \<^verbatim>\<open>identity\<close>.\<close>

record participant =
  object_id :: nat
  identity :: string

datatype track_source = Microphone | Camera | ScreenShare | ScreenShareAudio | Unknown

record trackRef =
  tr_participant :: "participant option"
  source :: track_source
  mediaStreamTrack :: "track option"

record voice_interface =
  agentState :: json
  isListening :: bool
  agentParticipantRef :: "participant option"

definition initial_interface :: voice_interface where
  "initial_interface = \<lparr>agentState = JStr ''idle'', isListening = False, agentParticipantRef = None\<rparr>"

text \<open>The effect on \<^verbatim>\<open>[remoteParticipants]\<close>: the first remote participant is the agent.\<close>

definition find_agent_effect :: "participant list \<Rightarrow> voice_interface \<Rightarrow> voice_interface" where
  "find_agent_effect remoteParticipants s =
     (case remoteParticipants of
        [] \<Rightarrow> s
      | agentParticipant # _ \<Rightarrow> s\<lparr>agentParticipantRef := Some agentParticipant\<rparr>)"

text \<open>The effect on \<^verbatim>\<open>[remoteParticipants, tracks]\<close>, with its three branches.\<close>

definition track_agent_effect :: "trackRef list \<Rightarrow> voice_interface \<Rightarrow> voice_interface" where
  "track_agent_effect tracks s =
     (case agentParticipantRef s of
        None \<Rightarrow> s\<lparr>agentState := JStr ''listening'', isListening := True\<rparr>
      | Some agentParticipant \<Rightarrow>
          let agentTracks =
                filter (\<lambda>t. case tr_participant t of
                               None \<Rightarrow> False
                             | Some p \<Rightarrow> identity p = identity agentParticipant \<and> source t = Microphone)
                  tracks
          in if length agentTracks = 0
             then s\<lparr>agentState := JStr ''listening'', isListening := True\<rparr>
             else s\<lparr>agentState := JStr ''listening'', isListening := True\<rparr>)"

text \<open>
  The body of the \<^verbatim>\<open>try\<close> in \<^verbatim>\<open>handleDataReceived\<close>. \<open>parsed\<close> is the result of
  \<^verbatim>\<open>JSON.parse(decoder.decode(payload))\<close>, \<open>None\<close> when it throws.
\<close>

definition try_state_update :: "json option \<Rightarrow> voice_interface \<Rightarrow> js_error + voice_interface" where
  "try_state_update parsed s =
     (case parsed of
        None \<Rightarrow> Inl SyntaxError
      | Some d \<Rightarrow>
          (case get_property d ''state'' of
             Inl e \<Rightarrow> Inl e
           | Inr st \<Rightarrow> if truthy st then Inr (s\<lparr>agentState := the st\<rparr>) else Inr s))"

text \<open>
  \<^verbatim>\<open>handleDataReceived(payload, participant)\<close>: only for a participant other than the
  local one; whatever the body throws is caught and ignored.
\<close>

definition handleDataReceived ::
  "participant \<Rightarrow> json option \<Rightarrow> participant option \<Rightarrow> voice_interface \<Rightarrow> voice_interface" where
  "handleDataReceived localParticipant parsed sender s =
     (case sender of
        None \<Rightarrow> s
      | Some p \<Rightarrow>
          if object_id p = object_id localParticipant then s
          else (case try_state_update parsed s of Inl _ \<Rightarrow> s | Inr s' \<Rightarrow> s'))"

definition getStatusText :: "json \<Rightarrow> string" where
  "getStatusText st =
     (if st = JStr ''listening'' then ''Listening to you...''
      else if st = JStr ''thinking'' then ''Processing...''
      else if st = JStr ''speaking'' then ''Speaking...''
      else ''Ready to chat'')"

text \<open>The closed set of agent states that the component declares.\<close>

definition agent_states :: "json list" where
  "agent_states = [JStr ''idle'', JStr ''listening'', JStr ''thinking'', JStr ''speaking'']"

text \<open>\<^verbatim>\<open>agentMicTrack\<close>: the media track of the first remote microphone track that has one.\<close>

definition agentMicTrack :: "participant \<Rightarrow> trackRef list \<Rightarrow> track option" where
  "agentMicTrack localParticipant tracks =
     (case find (\<lambda>t. (case tr_participant t of
                         None \<Rightarrow> False
                       | Some p \<Rightarrow> object_id p \<noteq> object_id localParticipant)
                    \<and> source t = Microphone \<and> mediaStreamTrack t \<noteq> None) tracks of
        None \<Rightarrow> None
      | Some t \<Rightarrow> mediaStreamTrack t)"

section \<open>VoiceAgent\<close>

datatype DisconnectReason =
    UNKNOWN_REASON
  | CLIENT_INITIATED
  | DUPLICATE_IDENTITY
  | SERVER_SHUTDOWN
  | PARTICIPANT_REMOVED
  | ROOM_DELETED
  | STATE_MISMATCH
  | JOIN_FAILURE

record voice_agent =
  token :: json
  isConnecting :: bool
  error :: string
  roomName :: string

definition initial_agent :: voice_agent where
  "initial_agent =
     \<lparr>token = JStr [], isConnecting = False, error = [], roomName = ''voice-agent-room''\<rparr>"

text \<open>What a rejected promise or a \<^verbatim>\<open>throw\<close> carries: an \<^verbatim>\<open>Error\<close> with its message, or another value.\<close>

datatype thrown = ErrorObject string | OtherValue

text \<open>
  The outcome of \<^verbatim>\<open>fetch\<close>: rejected, or a response with \<^verbatim>\<open>ok\<close>, \<^verbatim>\<open>status\<close> and
  what \<^verbatim>\<open>response.json()\<close> gives.
\<close>

datatype response_body = JsonRejected thrown | JsonBody json

datatype fetch_result = FetchRejected thrown | Response bool nat response_body

text \<open>The decimal digits of a number, as the template string prints it.\<close>

fun string_of_nat :: "nat \<Rightarrow> string" where
  "string_of_nat n =
     (if n < 10 then [''0123456789'' ! n]
      else string_of_nat (n div 10) @ [''0123456789'' ! (n mod 10)])"

text \<open>The calls that the components make on their collaborators.\<close>

datatype call =
    HttpGet string
  | SetTimeout nat
  | CancelAnimationFrame
  | SourceDisconnect
  | AnalyserDisconnect
  | AudioContextClose
  | RoomOff

text \<open>\<^verbatim>\<open>fetchToken\<close> up to its \<^verbatim>\<open>await fetch(...)\<close>; \<open>now\<close> is \<^verbatim>\<open>Date.now()\<close>.\<close>

definition fetchToken_begin :: "nat \<Rightarrow> voice_agent \<Rightarrow> voice_agent \<times> call list" where
  "fetchToken_begin now s =
     (s\<lparr>isConnecting := True, error := []\<rparr>,
      [HttpGet (''/api/token?roomName='' @ roomName s @ ''&participantName=user-''
                @ string_of_nat now)])"

text \<open>
  The rest of the \<^verbatim>\<open>try\<close> block: the token, or what is thrown. Reading \<^verbatim>\<open>token\<close> of a
  \<^verbatim>\<open>null\<close> body throws a TypeError (the message is the engine's).
\<close>

definition token_or_throw :: "fetch_result \<Rightarrow> thrown + json" where
  "token_or_throw r =
     (case r of
        FetchRejected e \<Rightarrow> Inl e
      | Response ok status body \<Rightarrow>
          if \<not> ok then Inl (ErrorObject (''Token fetch failed: '' @ string_of_nat status))
          else (case body of
                  JsonRejected e \<Rightarrow> Inl e
                | JsonBody d \<Rightarrow>
                    (case get_property d ''token'' of
                       Inl _ \<Rightarrow> Inl (ErrorObject ''Cannot read properties of null'')
                     | Inr t \<Rightarrow>
                         if \<not> truthy t then Inl (ErrorObject ''No token received'')
                         else Inr (the t))))"

text \<open>\<^verbatim>\<open>err instanceof Error ? err.message : 'Unknown error'\<close>\<close>

definition errorMessage :: "thrown \<Rightarrow> string" where
  "errorMessage e = (case e of ErrorObject m \<Rightarrow> m | OtherValue \<Rightarrow> ''Unknown error'')"

text \<open>\<^verbatim>\<open>fetchToken\<close> from the settled fetch on: \<^verbatim>\<open>setToken\<close> or \<^verbatim>\<open>catch\<close>, then \<^verbatim>\<open>finally\<close>.\<close>

definition fetchToken_settle :: "fetch_result \<Rightarrow> voice_agent \<Rightarrow> voice_agent" where
  "fetchToken_settle r s =
     (case token_or_throw r of
        Inr t \<Rightarrow> s\<lparr>token := t, isConnecting := False\<rparr>
      | Inl e \<Rightarrow> s\<lparr>error := errorMessage e, isConnecting := False\<rparr>)"

text \<open>
  What happens to a mounted \<^verbatim>\<open>VoiceAgent\<close>. \<open>Mounted\<close> runs the effect that calls
  \<^verbatim>\<open>fetchToken\<close>; \<open>RetryClicked\<close> is the button of the error view; \<open>TimerFired\<close> is the
  timeout set by \<^verbatim>\<open>onDisconnected\<close>. The component has no cleanup of its own and
  listens to no page event, so \<open>AgentUnmounted\<close> and \<open>BeforeUnload\<close> run none of its code.
\<close>

datatype agent_event =
    Mounted nat
  | FetchSettled fetch_result
  | RetryClicked nat
  | RoomConnected
  | RoomDisconnected "DisconnectReason option"
  | TimerFired nat
  | RoomError string
  | AgentUnmounted
  | BeforeUnload


fun agent_step :: "voice_agent \<Rightarrow> agent_event \<Rightarrow> voice_agent \<times> call list" where
  "agent_step s (Mounted now) = fetchToken_begin now s"
| "agent_step s (FetchSettled r) = (fetchToken_settle r s, [])"
| "agent_step s (RetryClicked now) = fetchToken_begin now s"
| "agent_step s RoomConnected = (s, [])"
| "agent_step s (RoomDisconnected reason) =
     (if reason \<noteq> Some CLIENT_INITIATED then (s, [SetTimeout 2000]) else (s, []))"
| "agent_step s (TimerFired now) = fetchToken_begin now s"
| "agent_step s (RoomError message) = (s\<lparr>error := message\<rparr>, [])"
| "agent_step s AgentUnmounted = (s, [])"
| "agent_step s BeforeUnload = (s, [])"

fun run_agent :: "voice_agent \<Rightarrow> agent_event list \<Rightarrow> voice_agent \<times> call list" where
  "run_agent s [] = (s, [])"
| "run_agent s (e # es) =
     (let (s', cs) = agent_step s e; (s'', cs') = run_agent s' es in (s'', cs @ cs'))"

text \<open>
  What \<^verbatim>\<open>VoiceAgent\<close> returns. \<open>LiveKitRoom\<close> carries the props \<^verbatim>\<open>token\<close>,
  \<^verbatim>\<open>serverUrl\<close>, \<^verbatim>\<open>connect\<close>, \<^verbatim>\<open>audio\<close> and \<^verbatim>\<open>video\<close>.
\<close>

datatype view =
    LoadingView
  | ErrorView string
  | ConfigurationErrorView
  | LiveKitRoom json string bool bool bool

text \<open>The component's return, in the order of its checks; \<open>serverUrl\<close> is the environment's.\<close>

definition VoiceAgent :: "string option \<Rightarrow> voice_agent \<Rightarrow> view" where
  "VoiceAgent serverUrl s =
     (if isConnecting s \<or> \<not> truthy (Some (token s)) then LoadingView
      else if error s \<noteq> [] then ErrorView (error s)
      else case serverUrl of
             None \<Rightarrow> ConfigurationErrorView
           | Some url \<Rightarrow>
               if url = [] then ConfigurationErrorView
               else LiveKitRoom (token s) url True True False)"

fun has_retry_button :: "view \<Rightarrow> bool" where
  "has_retry_button (ErrorView _) = True"
| "has_retry_button _ = False"

fun connects :: "view \<Rightarrow> bool" where
  "connects (LiveKitRoom _ _ c _ _) = c"
| "connects _ = False"

text \<open>
  The transport sessions that the mounted instances of one page ask for: one for every
  instance that renders a \<open>LiveKitRoom\<close> with \<^verbatim>\<open>connect\<close> set.
\<close>

definition transport_sessions :: "string option \<Rightarrow> voice_agent list \<Rightarrow> view list" where
  "transport_sessions serverUrl instances = filter connects (map (VoiceAgent serverUrl) instances)"

text \<open>
  The calls made when the tree under \<^verbatim>\<open>VoiceAgent\<close> unmounts: the cleanup of the data
  listener, the two cleanups of the analyzer hook (the second exists when the effect got
  past its guards), and the renderer's.
\<close>

definition unmount_calls :: "analyzer_hook \<Rightarrow> bool \<Rightarrow> call list" where
  "unmount_calls h render_pending =
     [RoomOff]
     @ (if rafRef h then [CancelAnimationFrame] else [])
     @ (case sourceRef h of None \<Rightarrow> [] | Some _ \<Rightarrow> [SourceDisconnect])
     @ (case analyserRef h of None \<Rightarrow> [] | Some _ \<Rightarrow> [AnalyserDisconnect])
     @ (case audioCtxRef h of None \<Rightarrow> [] | Some _ \<Rightarrow> [AudioContextClose])
     @ (case audioCtxRef h of
          None \<Rightarrow> []
        | Some _ \<Rightarrow> [SourceDisconnect, AnalyserDisconnect, AudioContextClose])
     @ (if render_pending then [CancelAnimationFrame] else [])"

section \<open>Properties of the level\<close>




lemma sum_loop_nonneg: "0 \<le> s \<Longrightarrow> 0 \<le> sum_loop bs s"
  by (induction bs arbitrary: s) simp_all









subsection \<open>Silence and full scale\<close>









section \<open>The sampler under reduced motion and without a track\<close>

lemma supportsMotion_reduced: "prefers_reduced_motion h \<Longrightarrow> \<not> supportsMotion h"
  by (cases h rule: supportsMotion.cases) simp_all

lemma hook_step_still:
  assumes "\<not> supportsMotion_memo h" "data h = None" "contexts_opened h = 0"
          "audioCtxRef h = None" "analyserRef h = None" "\<not> rafRef h"
  shows "\<not> supportsMotion_memo (hook_step h e) \<and> data (hook_step h e) = None
       \<and> contexts_opened (hook_step h e) = 0 \<and> audioCtxRef (hook_step h e) = None
       \<and> analyserRef (hook_step h e) = None \<and> \<not> rafRef (hook_step h e)"
  using assms
  by (cases e) (simp_all add: attach_effect_def cleanup_def loop_def split: option.splits)

lemma run_hook_still:
  assumes "\<not> supportsMotion_memo h" "data h = None" "contexts_opened h = 0"
          "audioCtxRef h = None" "analyserRef h = None" "\<not> rafRef h"
  shows "data (run_hook h evs) = None \<and> contexts_opened (run_hook h evs) = 0
       \<and> audioCtxRef (run_hook h evs) = None \<and> \<not> rafRef (run_hook h evs)"
  using assms
proof (induction evs arbitrary: h)
  case Nil
  then show ?case by (simp add: run_hook_def)
next
  case (Cons e evs)
  from hook_step_still [OF Cons.prems, of e] Cons.IH [of "hook_step h e"]
  show ?case by (simp add: run_hook_def)
qed

lemma hook_step_memo: "supportsMotion_memo (hook_step h e) = supportsMotion_memo h"
  by (cases e) (simp_all add: attach_effect_def cleanup_def loop_def split: option.splits)

lemma page_step_memo: "supportsMotion_memo (snd (page_step p e)) = supportsMotion_memo (snd p)"
  by (cases p; cases e) (simp_all add: hook_step_memo)

lemma run_page_memo: "supportsMotion_memo (snd (run_page p pevs)) = supportsMotion_memo (snd p)"
  unfolding run_page_def
  by (induction pevs arbitrary: p) (simp_all add: page_step_memo)

lemma page_step_still:
  assumes "\<not> supportsMotion_memo (snd p)" "data (snd p) = None" "contexts_opened (snd p) = 0"
          "audioCtxRef (snd p) = None" "analyserRef (snd p) = None" "\<not> rafRef (snd p)"
  shows "\<not> supportsMotion_memo (snd (page_step p e)) \<and> data (snd (page_step p e)) = None
       \<and> contexts_opened (snd (page_step p e)) = 0 \<and> audioCtxRef (snd (page_step p e)) = None
       \<and> analyserRef (snd (page_step p e)) = None \<and> \<not> rafRef (snd (page_step p e))"
proof (cases p)
  case (Pair hst h)
  show ?thesis
  proof (cases e)
    case (HostChanged hst')
    with Pair assms show ?thesis by simp
  next
    case (HookEvent ev)
    with Pair assms hook_step_still [of h ev] show ?thesis by simp
  qed
qed

lemma run_page_still:
  assumes "\<not> supportsMotion_memo (snd p)" "data (snd p) = None" "contexts_opened (snd p) = 0"
          "audioCtxRef (snd p) = None" "analyserRef (snd p) = None" "\<not> rafRef (snd p)"
  shows "data (snd (run_page p pevs)) = None \<and> contexts_opened (snd (run_page p pevs)) = 0
       \<and> audioCtxRef (snd (run_page p pevs)) = None \<and> \<not> rafRef (snd (run_page p pevs))"
  using assms
proof (induction pevs arbitrary: p)
  case Nil
  then show ?case by (simp add: run_page_def)
next
  case (Cons e pevs)
  from page_step_still [OF Cons.prems, of e] Cons.IH [of "page_step p e"]
  show ?case by (simp add: run_page_def)
qed

text \<open>
  Claim C5, as stated: no audio context is opened for a track that is attached while the
  host signals the reduced-motion preference. It fails: the hook reads the preference
  once, when it mounts. On a host that signals no preference at the mount and signals it
  afterwards, a track attached while the preference holds opens an audio context and the
  next frame emits a sample.
\<close>

theorem preference_after_mount_is_ignored:
  "prefers_reduced_motion
     (fst (run_page (mount_page (Window (Some False)) \<lparr>fftSize = 1024, smoothingTimeConstant = 0.82\<rparr>)
        [HostChanged (Window (Some True)), HookEvent (TrackChanged (Some ''agent-mic''))]))
   \<and> contexts_opened
     (snd (run_page (mount_page (Window (Some False)) \<lparr>fftSize = 1024, smoothingTimeConstant = 0.82\<rparr>)
        [HostChanged (Window (Some True)), HookEvent (TrackChanged (Some ''agent-mic''))])) = 1
   \<and> data
     (snd (run_page (mount_page (Window (Some False)) \<lparr>fftSize = 1024, smoothingTimeConstant = 0.82\<rparr>)
        [HostChanged (Window (Some True)), HookEvent (TrackChanged (Some ''agent-mic'')),
         HookEvent (AnimationFrame [7] [128, 128])]))
     = Some \<lparr>freq = [7], time = [128, 128], level = Some 0\<rparr>"
  by (simp add: run_page_def mount_page_def useAudioAnalyzer_def attach_effect_def cleanup_def
      loop_def compute_level_def sample_v_def)

text \<open>
  Claim C5, amended. The hook reads the reduced-motion preference once, when it mounts,
  and a later change of the host never changes what it read. If the host signals the
  preference at the mount, the sampler never starts: whatever tracks are attached
  afterwards, whatever frames pass and however the host changes, no audio context is
  opened, no frame callback is pending and \<open>data\<close> stays \<^verbatim>\<open>null\<close>.
\<close>

theorem reduced_motion_at_mount_never_starts:
  assumes "prefers_reduced_motion host"
  shows "contexts_opened (snd (run_page (mount_page host opts) pevs)) = 0
       \<and> audioCtxRef (snd (run_page (mount_page host opts) pevs)) = None
       \<and> \<not> rafRef (snd (run_page (mount_page host opts) pevs))
       \<and> data (snd (run_page (mount_page host opts) pevs)) = None
       \<and> supportsMotion_memo (snd (run_page (mount_page host0 opts) pevs)) = supportsMotion host0"
proof -
  have "\<not> supportsMotion host" using assms by (rule supportsMotion_reduced)
  then have still: "data (snd (run_page (mount_page host opts) pevs)) = None
       \<and> contexts_opened (snd (run_page (mount_page host opts) pevs)) = 0
       \<and> audioCtxRef (snd (run_page (mount_page host opts) pevs)) = None
       \<and> \<not> rafRef (snd (run_page (mount_page host opts) pevs))"
    using run_page_still [of "mount_page host opts" pevs]
    by (simp add: mount_page_def useAudioAnalyzer_def)
  have "supportsMotion_memo (snd (run_page (mount_page host0 opts) pevs)) = supportsMotion host0"
    by (simp add: run_page_memo mount_page_def useAudioAnalyzer_def)
  with still show ?thesis by simp
qed

theorem reduced_motion_at_mount_never_starts_witness:
  "data (snd (run_page (mount_page (Window (Some True)) \<lparr>fftSize = 1024, smoothingTimeConstant = 0.82\<rparr>)
           [HookEvent (TrackChanged (Some ''agent-mic'')), HookEvent (AnimationFrame [7] [0, 255]),
            HostChanged (Window (Some False)),
            HookEvent (TrackChanged (Some ''other-mic'')), HookEvent (AnimationFrame [9] [255, 0])])) = None
   \<and> contexts_opened (snd (run_page (mount_page (Window (Some True)) \<lparr>fftSize = 1024, smoothingTimeConstant = 0.82\<rparr>)
           [HookEvent (TrackChanged (Some ''agent-mic'')), HookEvent (AnimationFrame [7] [0, 255]),
            HostChanged (Window (Some False)),
            HookEvent (TrackChanged (Some ''other-mic'')), HookEvent (AnimationFrame [9] [255, 0])])) = 0"
proof -
  have "prefers_reduced_motion (Window (Some True))" by simp
  from reduced_motion_at_mount_never_starts [OF this] show ?thesis by blast
qed

text \<open>With motion supported the same events do start the sampler and emit a sample.\<close>

lemma sampler_starts:
  "contexts_opened (run_hook (useAudioAnalyzer (Window (Some False)) opts) [TrackChanged (Some t), AnimationFrame f [0,255]]) = 1
  \<and> data (run_hook (useAudioAnalyzer (Window (Some False)) opts) [TrackChanged (Some t), AnimationFrame f [0,255]]) = Some \<lparr>freq = f, time = [0,255], level = compute_level [0,255]\<rparr>"
  by (simp add: run_hook_def useAudioAnalyzer_def attach_effect_def cleanup_def loop_def)







section \<open>The agent state in VoiceInterface\<close>

text \<open>
  Claim C10. The effect on the participants and tracks sets the agent state to
  \<^verbatim>\<open>'listening'\<close> in each of its three branches: whatever the state was before,
  for instance one set by a data message, it is \<^verbatim>\<open>'listening'\<close> after a change of the
  tracks alone and after a change of the participants.
\<close>

theorem participant_or_track_update_resets_state:
  "agentState (track_agent_effect tracks s) = JStr ''listening''
   \<and> agentState (track_agent_effect tracks (find_agent_effect remoteParticipants s)) = JStr ''listening''"
  by (simp add: track_agent_effect_def Let_def split: option.splits)

theorem participant_or_track_update_resets_state_witness:
  "agentState (handleDataReceived \<lparr>object_id = 0, identity = ''user''\<rparr>
                 (Some (JObj [(''state'', JStr ''speaking'')]))
                 (Some \<lparr>object_id = 1, identity = ''agent''\<rparr>) initial_interface) = JStr ''speaking''
   \<and> agentState (track_agent_effect []
        (handleDataReceived \<lparr>object_id = 0, identity = ''user''\<rparr>
                 (Some (JObj [(''state'', JStr ''speaking'')]))
                 (Some \<lparr>object_id = 1, identity = ''agent''\<rparr>) initial_interface)) = JStr ''listening''"
  using participant_or_track_update_resets_state
    [of "[]" "handleDataReceived \<lparr>object_id = 0, identity = ''user''\<rparr>
                 (Some (JObj [(''state'', JStr ''speaking'')]))
                 (Some \<lparr>object_id = 1, identity = ''agent''\<rparr>) initial_interface"]
  by (simp add: handleDataReceived_def try_state_update_def initial_interface_def)

text \<open>What \<^verbatim>\<open>handleDataReceived\<close> drops, and what alone can change the state.\<close>

lemma unparsable_payload_dropped: "handleDataReceived lp None sender s = s"
  by (simp add: handleDataReceived_def try_state_update_def split: option.splits)

lemma null_payload_dropped: "handleDataReceived lp (Some JNull) sender s = s"
  by (simp add: handleDataReceived_def try_state_update_def split: option.splits)

lemma local_or_missing_sender_dropped:
  "handleDataReceived lp parsed None s = s \<and> handleDataReceived lp parsed (Some lp) s = s"
  by (simp add: handleDataReceived_def)

lemma state_change_needs_state_field:
  assumes "handleDataReceived lp parsed sender s \<noteq> s"
  shows "\<exists>kvs v. parsed = Some (JObj kvs) \<and> map_of kvs ''state'' = Some v \<and> truthy (Some v)
           \<and> handleDataReceived lp parsed sender s = s\<lparr>agentState := v\<rparr>"
proof -
  from assms obtain d where d: "parsed = Some d"
    by (cases parsed) (auto simp add: handleDataReceived_def try_state_update_def split: option.splits)
  show ?thesis
  proof (cases d)
    case (JObj kvs)
    with assms d show ?thesis
      by (cases "map_of kvs ''state''")
         (auto simp add: handleDataReceived_def try_state_update_def split: option.splits if_splits)
  qed (use assms d in \<open>auto simp add: handleDataReceived_def try_state_update_def split: option.splits\<close>)
qed

text \<open>
  Claim C7. The claim has a state outside \<^verbatim>\<open>idle\<close>, \<^verbatim>\<open>listening\<close>,
  \<^verbatim>\<open>thinking\<close>, \<^verbatim>\<open>speaking\<close> dropped. The handler checks only that the field is
  truthy: the message \<^verbatim>\<open>{"state":"dancing"}\<close> of the remote participant replaces the
  state \<^verbatim>\<open>'speaking'\<close> by \<^verbatim>\<open>'dancing'\<close>, a value outside the declared set, for
  which the renderer has no colours and \<^verbatim>\<open>render\<close> throws.
\<close>

theorem out_of_set_state_is_applied:
  "agentState (handleDataReceived \<lparr>object_id = 0, identity = ''user''\<rparr>
                 (Some (JObj [(''state'', JStr ''dancing'')]))
                 (Some \<lparr>object_id = 1, identity = ''agent''\<rparr>)
                 (initial_interface\<lparr>agentState := JStr ''speaking''\<rparr>)) = JStr ''dancing''
   \<and> JStr ''dancing'' \<notin> set agent_states
   \<and> render 360 360 (JStr ''dancing'') None = Inl TypeError"
  by (simp add: handleDataReceived_def try_state_update_def agent_states_def render_def)

section \<open>The token fetch and the connection in VoiceAgent\<close>

lemma settle_calls_nothing: "snd (agent_step s (FetchSettled r)) = []"
  by simp

lemma failed_first_fetch_loading:
  assumes "token_or_throw r = Inl e"
  shows "VoiceAgent url (fst (run_agent initial_agent [Mounted now, FetchSettled r])) = LoadingView"
  using assms
  by (simp add: VoiceAgent_def fetchToken_begin_def fetchToken_settle_def initial_agent_def)

text \<open>
  Claim C9. The claim has a failed token fetch shown as an error with a retry action.
  The component tests \<^verbatim>\<open>isConnecting || !token\<close> before \<^verbatim>\<open>error\<close>: when the first
  fetch after the mount fails (HTTP 500, or a body without a token) the token is still
  empty, so the loading view is returned, and the error view with its retry button is
  not, although \<open>error\<close> holds the message.
\<close>

theorem first_fetch_failure_shows_loading:
  "VoiceAgent (Some ''wss://livekit.example'')
     (fst (run_agent initial_agent
        [Mounted 0, FetchSettled (Response False 500 (JsonBody JNull))])) = LoadingView
   \<and> error (fst (run_agent initial_agent
        [Mounted 0, FetchSettled (Response False 500 (JsonBody JNull))])) = ''Token fetch failed: 500''
   \<and> VoiceAgent (Some ''wss://livekit.example'')
     (fst (run_agent initial_agent
        [Mounted 0, FetchSettled (Response True 200 (JsonBody (JObj [])))])) = LoadingView
   \<and> error (fst (run_agent initial_agent
        [Mounted 0, FetchSettled (Response True 200 (JsonBody (JObj [])))])) = ''No token received''"
  by (simp add: VoiceAgent_def fetchToken_begin_def fetchToken_settle_def initial_agent_def
      token_or_throw_def errorMessage_def)






lemma sessions_per_instance:
  "length (transport_sessions serverUrl instances)
   = length (filter (\<lambda>s. connects (VoiceAgent serverUrl s)) instances)"
  by (induction instances) (simp_all add: transport_sessions_def)

text \<open>
  Claim C1. The claim has at most one transport session per room, a second connect
  attempt being held back by a guard flag. The component reads no such flag: two mounted
  instances for the room \<^verbatim>\<open>voice-agent-room\<close>, each with its token, both render the
  room with \<^verbatim>\<open>connect\<close> set, which asks for two sessions.
\<close>

theorem two_instances_open_two_sessions:
  "roomName (fst (run_agent initial_agent
      [Mounted 1, FetchSettled (Response True 200 (JsonBody (JObj [(''token'', JStr ''t1'')])))]))
   = roomName (fst (run_agent initial_agent
      [Mounted 2, FetchSettled (Response True 200 (JsonBody (JObj [(''token'', JStr ''t2'')])))]))
   \<and> transport_sessions (Some ''wss://livekit.example'')
       [fst (run_agent initial_agent
          [Mounted 1, FetchSettled (Response True 200 (JsonBody (JObj [(''token'', JStr ''t1'')])))]),
        fst (run_agent initial_agent
          [Mounted 2, FetchSettled (Response True 200 (JsonBody (JObj [(''token'', JStr ''t2'')])))])]
     = [LiveKitRoom (JStr ''t1'') ''wss://livekit.example'' True True False,
        LiveKitRoom (JStr ''t2'') ''wss://livekit.example'' True True False]"
  by (simp add: transport_sessions_def VoiceAgent_def fetchToken_begin_def fetchToken_settle_def
      initial_agent_def token_or_throw_def)

text \<open>
  Claim C2. The claim has unmount and page unload request the transport disconnect
  between stopping the sampler and clearing the guard flag. When the tree unmounts with
  the sampler running, the calls made are those of the data listener, the analyzer hook
  and the renderer; \<^verbatim>\<open>VoiceAgent\<close> itself makes no call on unmount and none on
  \<^verbatim>\<open>beforeunload\<close>, and no flag exists to clear.
\<close>

theorem unmount_and_unload_request_no_disconnect:
  "unmount_calls
     (run_hook (useAudioAnalyzer (Window (Some False)) \<lparr>fftSize = 1024, smoothingTimeConstant = 0.82\<rparr>)
        [TrackChanged (Some ''agent-mic''), AnimationFrame [0] [128]]) True
   = [RoomOff, CancelAnimationFrame, SourceDisconnect, AnalyserDisconnect, AudioContextClose,
      SourceDisconnect, AnalyserDisconnect, AudioContextClose, CancelAnimationFrame]
   \<and> agent_step s AgentUnmounted = (s, [])
   \<and> agent_step s BeforeUnload = (s, [])"
  by (simp add: unmount_calls_def run_hook_def useAudioAnalyzer_def attach_effect_def cleanup_def
      loop_def)

end
